theory Spec2Isabelle
  imports Complex_Main
begin

section \<open>Python values used by the module\<close>

text \<open>
  This theory embeds the enemies, the enemy generator and the game session of the module
  \<open>turtle_adventure\<close> and proves what their updates, their collisions and the spawn
  schedule do.

  Positions, sizes, speeds and clock readings are Python numbers (ints and floats mixed);
  they are modelled as real numbers. An arithmetic fault (\<open>ZeroDivisionError\<close>) or an
  index fault (\<open>IndexError\<close>) ends the method that raises it: such a method returns
  \<open>Inl\<close> of the error, and \<open>Inr\<close> of the updated state otherwise.
\<close>

datatype py_error = ZeroDivisionError | IndexError

definition SCREEN_WIDTH :: real where
  "SCREEN_WIDTH = 800"

definition SCREEN_HEIGHT :: real where
  "SCREEN_HEIGHT = 500"

text \<open>\<open>math.hypot\<close> of the standard library.\<close>

definition hypot :: "real \<Rightarrow> real \<Rightarrow> real" where
  "hypot dx dy = sqrt (dx * dx + dy * dy)"

subsection \<open>The projectile: a \<open>RawTurtle\<close> of the standard library\<close>

text \<open>
  Only what \<open>ShootingEnemy\<close> uses of a turtle is kept: its position, its heading and its
  visibility. The heading is kept as the unit orientation vector the library stores, and
  \<open>towards\<close> gives that vector directly: the angle in between, which the library rounds,
  is not modelled. \<open>towards\<close> of the turtle's own position is the angle 0, the vector
  (1, 0). A new turtle is visible and at the origin.
\<close>

record turtle =
  xcor :: real
  ycor :: real
  orient :: "real \<times> real"
  isvisible :: bool

definition RawTurtle :: turtle where
  "RawTurtle = \<lparr>xcor = 0, ycor = 0, orient = (1, 0), isvisible = True\<rparr>"

definition towards :: "turtle \<Rightarrow> real \<Rightarrow> real \<Rightarrow> real \<times> real" where
  "towards t tx ty =
     (let dx = tx - xcor t; dy = ty - ycor t; d = hypot dx dy
      in if d = 0 then (1, 0) else (dx / d, dy / d))"

definition setheading :: "turtle \<Rightarrow> real \<times> real \<Rightarrow> turtle" where
  "setheading t h = t\<lparr>orient := h\<rparr>"

definition goto :: "turtle \<Rightarrow> real \<Rightarrow> real \<Rightarrow> turtle" where
  "goto t tx ty = t\<lparr>xcor := tx, ycor := ty\<rparr>"

definition forward :: "turtle \<Rightarrow> real \<Rightarrow> turtle" where
  "forward t d = t\<lparr>xcor := xcor t + d * fst (orient t), ycor := ycor t + d * snd (orient t)\<rparr>"

definition distance :: "turtle \<Rightarrow> real \<Rightarrow> real \<Rightarrow> real" where
  "distance t tx ty = hypot (tx - xcor t) (ty - ycor t)"

definition hideturtle :: "turtle \<Rightarrow> turtle" where
  "hideturtle t = t\<lparr>isvisible := False\<rparr>"

section \<open>The enemies\<close>

text \<open>
  Class \<open>Enemy\<close>: position (from \<open>GameElement\<close>), size and color. The subclasses extend
  it; \<open>speed\<close> is the attribute of that name of the chasing, fencing and centipede enemies.
\<close>

record enemy_base =
  x :: real
  y :: real
  enemy_size :: real
  color :: string

record random_walk_enemy = enemy_base +
  op :: "string list"

record moving_enemy = enemy_base +
  speed :: real

type_synonym chasing_enemy = moving_enemy

record fencing_enemy = moving_enemy +
  spawnOpt :: "int option"

text \<open>
  A body segment is a canvas rectangle. \<open>update\<close> reads the first two coordinates of a
  rectangle only (\<open>canvas.coords(segment)[0]\<close> and \<open>[1]\<close>, its top-left corner) and
  \<open>render\<close> leaves them as they are: \<open>body_segments\<close> lists that corner for each
  segment, head first. (The canvas keeps the corner given first as the first one as long
  as the size is not negative.)
\<close>

type_synonym corner = "real \<times> real"

record centipede_enemy = moving_enemy +
  body_segments :: "corner list"
  segment_spacing :: real
  centipede_length :: nat

text \<open>
  \<open>ball\<close> is the enemy's current projectile; \<open>old_balls\<close> are the turtles it has replaced,
  which the enemy no longer refers to and which stay on the screen as they were left.
\<close>

record shooting_enemy = enemy_base +
  ball_speed :: real
  ball :: "turtle option"
  old_balls :: "turtle list"
  last_shot_time :: real

datatype enemy =
    RandomWalkEnemy random_walk_enemy
  | ChasingEnemy chasing_enemy
  | FencingEnemy fencing_enemy
  | CentipedeEnemy centipede_enemy
  | ShootingEnemy shooting_enemy

section \<open>The game session\<close>

text \<open>
  \<open>TurtleAdventureGame\<close>. \<open>player_x\<close> and \<open>player_y\<close> are the player's turtle position,
  \<open>canvas_text\<close> the text items (text, fill) drawn on the canvas, \<open>enemies\<close> the list of that
  name. \<open>is_started\<close> and \<open>elements\<close> belong to the base class \<open>Game\<close> of \<open>gamelib\<close>;
  \<open>elements\<close> holds here the enemies registered through \<open>add_element\<close>. Both lists hold
  an enemy as it is when its registration returns; a pass of updates takes the enemies it
  updates as an argument and returns them updated.
\<close>

record game =
  screen_width :: int
  screen_height :: int
  level :: int
  player_x :: real
  player_y :: real
  is_started :: bool
  canvas_text :: "(string \<times> string) list"
  enemies :: "enemy list"
  elements :: "enemy list"

text \<open>
  Modelled from the spec: \<open>Game.stop\<close> of \<open>gamelib\<close>, which is not among the sources. The
  spec gives the session a terminal-state flag and says that on a transition the session
  halts further ticking: \<open>stop\<close> clears the flag that keeps the tick loop running.
\<close>

definition stop :: "game \<Rightarrow> game" where
  "stop g = g\<lparr>is_started := False\<rparr>"

definition game_over_win :: "game \<Rightarrow> game" where
  "game_over_win g =
     (let g1 = stop g in g1\<lparr>canvas_text := canvas_text g1 @ [(''You Win'', ''green'')]\<rparr>)"

definition game_over_lose :: "game \<Rightarrow> game" where
  "game_over_lose g =
     (let g1 = stop g in g1\<lparr>canvas_text := canvas_text g1 @ [(''You Lose'', ''red'')]\<rparr>)"

subsection \<open>The collision tests and the update methods\<close>

definition hits_player :: "'a enemy_base_scheme \<Rightarrow> game \<Rightarrow> bool" where
  "hits_player e g \<longleftrightarrow>
     (x e - enemy_size e / 2 < player_x g \<and> player_x g < x e + enemy_size e / 2) \<and>
     (y e - enemy_size e / 2 < player_y g \<and> player_y g < y e + enemy_size e / 2)"

text \<open>
  The test written out at the end of the chasing, fencing and centipede \<open>update\<close>.
\<close>

definition in_box :: "'a enemy_base_scheme \<Rightarrow> game \<Rightarrow> bool" where
  "in_box e g \<longleftrightarrow>
     (x e < player_x g \<and> player_x g < x e + enemy_size e) \<and>
     (y e < player_y g \<and> player_y g < y e + enemy_size e)"

text \<open>
  \<open>RandomWalkEnemy.update\<close>; the two results of \<open>random.choice\<close> are its first arguments.
\<close>

definition RandomWalkEnemy_update ::
  "string \<Rightarrow> string \<Rightarrow> random_walk_enemy \<Rightarrow> game \<Rightarrow> py_error + (random_walk_enemy \<times> game)" where
  "RandomWalkEnemy_update random_x_operator random_y_operator e g =
     (let op1 = (if length (op e) = 0 then op e @ [random_x_operator, random_y_operator] else op e)
      in if length op1 < 2 then Inl IndexError
         else
           let e1 = e\<lparr>op := op1\<rparr>;
               e2 = (if op1 ! 0 = ''+'' then e1\<lparr>x := x e1 + 1\<rparr>
                     else if op1 ! 0 = ''-'' then e1\<lparr>x := x e1 - 1\<rparr> else e1);
               e3 = (if op1 ! 1 = ''+'' then e2\<lparr>y := y e2 + 1\<rparr>
                     else if op1 ! 1 = ''-'' then e2\<lparr>y := y e2 - 1\<rparr> else e2)
           in Inr (e3, if hits_player e3 g then game_over_lose g else g))"

text \<open>
  The pursuit step shared by the chasing enemy and the centipede's head: the unit vector
  towards the player times the speed. The division by \<open>dist\<close> raises when \<open>dist\<close> is 0.
\<close>

definition pursue :: "'a moving_enemy_scheme \<Rightarrow> game \<Rightarrow> py_error + 'a moving_enemy_scheme" where
  "pursue e g =
     (let x_cor = player_x g; y_cor = player_y g;
          dx = x_cor - x e; dy = y_cor - y e;
          dist = hypot dx dy
      in if dist = 0 then Inl ZeroDivisionError
         else
           let dx1 = dx / dist; dy1 = dy / dist
           in Inr (e\<lparr>x := x e + dx1 * speed e, y := y e + dy1 * speed e\<rparr>))"

definition check_out_of_bound :: "chasing_enemy \<Rightarrow> chasing_enemy" where
  "check_out_of_bound e =
     (let e1 = (if x e < 0 then e\<lparr>x := 0\<rparr>
                else if x e > SCREEN_WIDTH - enemy_size e then e\<lparr>x := SCREEN_WIDTH - enemy_size e\<rparr>
                else e)
      in if y e1 < 0 then e1\<lparr>y := 0\<rparr>
         else if y e1 > SCREEN_HEIGHT - enemy_size e1 then e1\<lparr>y := SCREEN_HEIGHT - enemy_size e1\<rparr>
         else e1)"

definition ChasingEnemy_update :: "chasing_enemy \<Rightarrow> game \<Rightarrow> py_error + (chasing_enemy \<times> game)" where
  "ChasingEnemy_update e g =
     (case pursue e g of
        Inl err \<Rightarrow> Inl err
      | Inr e1 \<Rightarrow>
          let e2 = check_out_of_bound e1
          in Inr (e2, if in_box e2 g then game_over_lose g else g))"

text \<open>
  \<open>FencingEnemy.create\<close> and \<open>FencingEnemy.update\<close>. The four rules of an update are plain
  \<open>if\<close> statements run one after the other, in an order that depends on \<open>spawnOpt\<close>.
\<close>

definition FencingEnemy_create :: "fencing_enemy \<Rightarrow> fencing_enemy" where
  "FencingEnemy_create e =
     (if spawnOpt e = Some 1 then e\<lparr>x := 660, y := 210\<rparr>
      else if spawnOpt e = Some 0 then e\<lparr>x := 720, y := 270\<rparr>
      else if spawnOpt e = Some 2 then e\<lparr>x := 720, y := 210\<rparr>
      else if spawnOpt e = Some 3 then e\<lparr>x := 660, y := 270\<rparr>
      else e)"

definition go_right :: "fencing_enemy \<Rightarrow> fencing_enemy" where
  "go_right e = (if y e = 210 then (if x e < 720 then e\<lparr>x := x e + speed e\<rparr> else e) else e)"

definition go_down :: "fencing_enemy \<Rightarrow> fencing_enemy" where
  "go_down e = (if x e = 720 then (if y e < 270 then e\<lparr>y := y e + speed e\<rparr> else e) else e)"

definition go_left :: "fencing_enemy \<Rightarrow> fencing_enemy" where
  "go_left e = (if y e = 270 then (if x e > 660 then e\<lparr>x := x e - speed e\<rparr> else e) else e)"

definition go_up :: "fencing_enemy \<Rightarrow> fencing_enemy" where
  "go_up e = (if x e = 660 then (if y e > 210 then e\<lparr>y := y e - speed e\<rparr> else e) else e)"

definition FencingEnemy_move :: "fencing_enemy \<Rightarrow> fencing_enemy" where
  "FencingEnemy_move e =
     (if spawnOpt e = Some 1 then go_up (go_left (go_down (go_right e)))
      else if spawnOpt e = Some 0 then go_down (go_right (go_up (go_left e)))
      else if spawnOpt e = Some 2 then go_right (go_up (go_left (go_down e)))
      else if spawnOpt e = Some 3 then go_left (go_down (go_right (go_up e)))
      else e)"

definition FencingEnemy_update :: "fencing_enemy \<Rightarrow> game \<Rightarrow> fencing_enemy \<times> game" where
  "FencingEnemy_update e g =
     (let e1 = FencingEnemy_move e
      in (e1, if in_box e1 g then game_over_lose g else g))"

text \<open>
  \<open>CentipedeEnemy.create\<close> appends the head's rectangle and then one rectangle for each
  \<open>i\<close> of \<open>range(1, length)\<close>.
\<close>

definition CentipedeEnemy_create :: "centipede_enemy \<Rightarrow> centipede_enemy" where
  "CentipedeEnemy_create e =
     e\<lparr>body_segments :=
         body_segments e
         @ [(x e, y e)]
         @ map (\<lambda>i. (x e - real i * segment_spacing e, y e)) [1..<centipede_length e]\<rparr>"

text \<open>
  One round of the loop \<open>for i in range(1, len(self.body_segments))\<close>: segment \<open>i\<close> is
  compared with the coordinates segment \<open>i - 1\<close> has on the canvas at that moment.
\<close>

definition move_segment :: "real \<Rightarrow> nat \<Rightarrow> corner list \<Rightarrow> py_error + corner list" where
  "move_segment spacing i segs =
     (let prev_segment = segs ! (i - 1); segment = segs ! i;
          dx = fst prev_segment - fst segment;
          dy = snd prev_segment - snd segment;
          dist = hypot dx dy
      in if dist > spacing then
           (if dist = 0 then Inl ZeroDivisionError
            else
              let dx1 = dx / dist; dy1 = dy / dist;
                  segment_x = fst segment + dx1 * (dist - spacing);
                  segment_y = snd segment + dy1 * (dist - spacing)
              in Inr (segs[i := (segment_x, segment_y)]))
         else Inr segs)"

fun move_body :: "real \<Rightarrow> nat list \<Rightarrow> corner list \<Rightarrow> py_error + corner list" where
  "move_body spacing [] segs = Inr segs"
| "move_body spacing (i # is) segs =
     (case move_segment spacing i segs of
        Inl err \<Rightarrow> Inl err
      | Inr segs1 \<Rightarrow> move_body spacing is segs1)"

text \<open>
  \<open>CentipedeEnemy.update\<close>: the head pursues the player, the body loop runs, and last the
  head's rectangle is put at the enemy's position. With no segment at all,
  \<open>self.body_segments[0]\<close> raises.
\<close>

definition CentipedeEnemy_update ::
  "centipede_enemy \<Rightarrow> game \<Rightarrow> py_error + (centipede_enemy \<times> game)" where
  "CentipedeEnemy_update e g =
     (case pursue e g of
        Inl err \<Rightarrow> Inl err
      | Inr e1 \<Rightarrow>
          (case move_body (segment_spacing e1) [1..<length (body_segments e1)]
                  (body_segments e1) of
             Inl err \<Rightarrow> Inl err
           | Inr segs \<Rightarrow>
               if segs = [] then Inl IndexError
               else
                 let e2 = e1\<lparr>body_segments := segs[0 := (x e1, y e1)]\<rparr>
                 in Inr (e2, if in_box e2 g then game_over_lose g else g)))"

text \<open>
  \<open>ShootingEnemy.__shoot_ball\<close> and \<open>ShootingEnemy.update\<close>; the reading of \<open>time.time()\<close>
  is the first argument of \<open>update\<close>.
\<close>

definition shoot_ball :: "shooting_enemy \<Rightarrow> game \<Rightarrow> shooting_enemy" where
  "shoot_ball e g =
     (let x_cor = player_x g; y_cor = player_y g;
          olds = (case ball e of None \<Rightarrow> old_balls e
                  | Some b \<Rightarrow> old_balls e @ [hideturtle b]);
          b1 = goto RawTurtle (x e) (y e);
          b2 = setheading b1 (towards b1 x_cor y_cor)
      in e\<lparr>ball := Some b2, old_balls := olds\<rparr>)"

definition ShootingEnemy_update :: "real \<Rightarrow> shooting_enemy \<Rightarrow> game \<Rightarrow> shooting_enemy \<times> game" where
  "ShootingEnemy_update current_time e g =
     (let e1 = (if current_time - last_shot_time e \<ge> 1
                then shoot_ball (e\<lparr>last_shot_time := current_time\<rparr>) g else e)
      in case ball e1 of
           None \<Rightarrow> (e1, g)
         | Some b \<Rightarrow>
             if isvisible b then
               (let b1 = forward b (ball_speed e1)
                in if distance b1 (player_x g) (player_y g) < enemy_size e1
                   then (e1\<lparr>ball := Some (hideturtle b1)\<rparr>, game_over_lose g)
                   else (e1\<lparr>ball := Some b1\<rparr>, g))
             else (e1, g))"

subsection \<open>Registering enemies\<close>

text \<open>
  The \<open>create\<close> method of each class: it makes the canvas items; the fencing enemy takes
  its corner there and the centipede lists its segments.
\<close>

fun Enemy_create :: "enemy \<Rightarrow> enemy" where
  "Enemy_create (RandomWalkEnemy e) = RandomWalkEnemy e"
| "Enemy_create (ChasingEnemy e) = ChasingEnemy e"
| "Enemy_create (FencingEnemy e) = FencingEnemy (FencingEnemy_create e)"
| "Enemy_create (CentipedeEnemy e) = CentipedeEnemy (CentipedeEnemy_create e)"
| "Enemy_create (ShootingEnemy e) = ShootingEnemy e"

text \<open>
  Modelled from the spec: \<open>Game.add_element\<close> of \<open>gamelib\<close>, which is not among the sources.
  By the spec an entity is created on spawn and owned by the session through its entity
  list: \<open>add_element\<close> runs the element's \<open>create\<close> and appends it to the list.
\<close>

definition add_element :: "enemy \<Rightarrow> game \<Rightarrow> game" where
  "add_element element g = g\<lparr>elements := elements g @ [Enemy_create element]\<rparr>"

text \<open>
  \<open>TurtleAdventureGame.add_enemy\<close>. The object it appends to \<open>enemies\<close> is the very object
  it hands to \<open>add_element\<close>, whose \<open>create\<close> then acts on it: when \<open>add_enemy\<close> returns,
  \<open>enemies\<close> and the element list hold the same enemy, as \<open>create\<close> left it. In a list of
  values that is the created enemy in both lists.
\<close>

definition add_enemy :: "enemy \<Rightarrow> game \<Rightarrow> game" where
  "add_enemy enemy g = add_element enemy (g\<lparr>enemies := enemies g @ [Enemy_create enemy]\<rparr>)"

section \<open>The enemy generator\<close>

text \<open>
  The factories. What the source draws at random or reads from the clock is an argument:
  \<open>rx\<close> and \<open>ry\<close> are the results of \<open>random.randint(0, 600)\<close> and
  \<open>random.randint(0, 500)\<close>, \<open>rs\<close> that of \<open>random.randint(2, 3)\<close> in the chasing enemy's
  constructor, \<open>now\<close> the reading of \<open>time.time()\<close> in the shooting enemy's. A new element
  is at (0, 0) until a position is assigned.
\<close>

definition create_randomWalkenemy :: "int \<Rightarrow> int \<Rightarrow> game \<Rightarrow> game" where
  "create_randomWalkenemy rx ry g =
     (let new_enemy = \<lparr>x = 0, y = 0, enemy_size = 20, color = ''blue'', op = []\<rparr>;
          new_enemy1 = new_enemy\<lparr>x := real_of_int rx\<rparr>;
          new_enemy2 = new_enemy1\<lparr>y := real_of_int ry\<rparr>
      in add_element (RandomWalkEnemy new_enemy2) g)"

definition create_chasing :: "int \<Rightarrow> int \<Rightarrow> int \<Rightarrow> game \<Rightarrow> game" where
  "create_chasing rs rx ry g =
     (let new_enemy = \<lparr>x = 0, y = 0, enemy_size = 20, color = ''green'', speed = real_of_int rs\<rparr>;
          new_enemy1 = new_enemy\<lparr>x := real_of_int rx\<rparr>;
          new_enemy2 = new_enemy1\<lparr>y := real_of_int ry\<rparr>
      in add_enemy (ChasingEnemy new_enemy2) g)"

definition new_fencing :: "int \<Rightarrow> fencing_enemy" where
  "new_fencing i =
     (let new_enemy = \<lparr>x = 0, y = 0, enemy_size = 10, color = ''red'', speed = 5, spawnOpt = None\<rparr>
      in new_enemy\<lparr>spawnOpt := Some i\<rparr>)"

definition create_fencing :: "game \<Rightarrow> game" where
  "create_fencing g = fold (\<lambda>i. add_enemy (FencingEnemy (new_fencing i))) [0, 1, 2, 3] g"

definition create_centipede :: "int \<Rightarrow> int \<Rightarrow> game \<Rightarrow> game" where
  "create_centipede rx ry g =
     (let new_enemy = \<lparr>x = 0, y = 0, enemy_size = 10, color = ''yellow'', speed = 4,
                       body_segments = [], segment_spacing = 1 * 10, centipede_length = 10\<rparr>;
          new_enemy1 = new_enemy\<lparr>x := real_of_int rx\<rparr>;
          new_enemy2 = new_enemy1\<lparr>y := real_of_int ry\<rparr>
      in add_enemy (CentipedeEnemy new_enemy2) g)"

definition create_ShootingEnemy :: "real \<Rightarrow> int \<Rightarrow> int \<Rightarrow> game \<Rightarrow> game" where
  "create_ShootingEnemy now rx ry g =
     (let new_enemy = \<lparr>x = 0, y = 0, enemy_size = 10, color = ''brown'', ball_speed = 10,
                       ball = None, old_balls = [], last_shot_time = now\<rparr>;
          new_enemy1 = new_enemy\<lparr>x := real_of_int rx\<rparr>;
          new_enemy2 = new_enemy1\<lparr>y := real_of_int ry\<rparr>
      in add_enemy (ShootingEnemy new_enemy2) g)"

text \<open>
  \<open>EnemyGenerator.__init__\<close> calls \<open>after(delay, callback)\<close> of the host's timer; the
  schedule is the list of these calls in the order they are made, delays in milliseconds.
  \<open>py_range\<close> is Python's \<open>range(start, stop, step)\<close> for a positive step.
\<close>

datatype callback =
    Create_fencing | Create_centipede | Create_randomWalkenemy
  | Create_ShootingEnemy | Create_chasing

definition py_range :: "nat \<Rightarrow> nat \<Rightarrow> nat \<Rightarrow> nat list" where
  "py_range first bound step =
     map (\<lambda>k. first + k * step) [0..<(bound - first + step - 1) div step]"

definition EnemyGenerator_init :: "(nat \<times> callback) list" where
  "EnemyGenerator_init =
     [(100, Create_fencing), (100, Create_centipede), (100, Create_randomWalkenemy)]
     @ map (\<lambda>i. (100, Create_ShootingEnemy)) (py_range 0 5 1)
     @ map (\<lambda>i. (i, Create_randomWalkenemy)) (py_range 1000 100000 1000)
     @ map (\<lambda>i. (i, Create_chasing)) (py_range 1000 10000 1000)"

text \<open>
  A callback firing: the host calls the factory, whatever the state of the session. The
  values drawn at random and the clock reading of that call are in \<open>draw\<close>.
\<close>

record draw =
  rand_x :: int
  rand_y :: int
  rand_speed :: int
  clock :: real

fun fire :: "draw \<Rightarrow> callback \<Rightarrow> game \<Rightarrow> game" where
  "fire d Create_fencing g = create_fencing g"
| "fire d Create_centipede g = create_centipede (rand_x d) (rand_y d) g"
| "fire d Create_randomWalkenemy g = create_randomWalkenemy (rand_x d) (rand_y d) g"
| "fire d Create_ShootingEnemy g = create_ShootingEnemy (clock d) (rand_x d) (rand_y d) g"
| "fire d Create_chasing g = create_chasing (rand_speed d) (rand_x d) (rand_y d) g"

fun fire_all :: "(draw \<times> callback) list \<Rightarrow> game \<Rightarrow> game" where
  "fire_all [] g = g"
| "fire_all ((d, c) # cs) g = fire_all cs (fire d c g)"

section \<open>One pass of updates\<close>

text \<open>
  \<open>update\<close> of an enemy of any class; \<open>choice_x\<close> and \<open>choice_y\<close> are the results of
  \<open>random.choice\<close> and \<open>time_now\<close> the reading of \<open>time.time()\<close> during that call.
\<close>

record reading =
  choice_x :: string
  choice_y :: string
  time_now :: real

fun Enemy_update :: "reading \<Rightarrow> enemy \<Rightarrow> game \<Rightarrow> py_error + (enemy \<times> game)" where
  "Enemy_update r (RandomWalkEnemy e) g =
     map_sum id (map_prod RandomWalkEnemy id) (RandomWalkEnemy_update (choice_x r) (choice_y r) e g)"
| "Enemy_update r (ChasingEnemy e) g =
     map_sum id (map_prod ChasingEnemy id) (ChasingEnemy_update e g)"
| "Enemy_update r (FencingEnemy e) g =
     Inr (map_prod FencingEnemy id (FencingEnemy_update e g))"
| "Enemy_update r (CentipedeEnemy e) g =
     map_sum id (map_prod CentipedeEnemy id) (CentipedeEnemy_update e g)"
| "Enemy_update r (ShootingEnemy e) g =
     Inr (map_prod ShootingEnemy id (ShootingEnemy_update (time_now r) e g))"

text \<open>
  Modelled from the spec: the loop of \<open>gamelib\<close> that runs the updates, which is not among
  the sources. By the spec a tick invokes \<open>update\<close> on every entity in registration order,
  and an enemy may request a transition during this pass. An exception ends the pass.
\<close>

fun update_pass :: "(reading \<times> enemy) list \<Rightarrow> game \<Rightarrow> py_error + (enemy list \<times> game)" where
  "update_pass [] g = Inr ([], g)"
| "update_pass ((r, e) # es) g =
     (case Enemy_update r e g of
        Inl err \<Rightarrow> Inl err
      | Inr (e1, g1) \<Rightarrow>
          (case update_pass es g1 of
             Inl err \<Rightarrow> Inl err
           | Inr (es1, g2) \<Rightarrow> Inr (e1 # es1, g2)))"

section \<open>Notions used in the properties\<close>

text \<open>
  A running session with no enemy yet: what \<open>init_game\<close> builds (the player at
  \<open>(50, screen_height // 2)\<close>, the lists empty) once the host has started the loop.
\<close>

definition session :: "int \<Rightarrow> int \<Rightarrow> game" where
  "session w h =
     \<lparr>screen_width = w, screen_height = h, level = 1,
      player_x = 50, player_y = real_of_int (h div 2),
      is_started = True, canvas_text = [], enemies = [], elements = []\<rparr>"

definition position :: "'a enemy_base_scheme \<Rightarrow> real \<times> real" where
  "position e = (x e, y e)"

fun enemy_position :: "enemy \<Rightarrow> real \<times> real" where
  "enemy_position (RandomWalkEnemy e) = position e"
| "enemy_position (ChasingEnemy e) = position e"
| "enemy_position (FencingEnemy e) = position e"
| "enemy_position (CentipedeEnemy e) = position e"
| "enemy_position (ShootingEnemy e) = position e"


fun is_random_walk :: "enemy \<Rightarrow> bool" where
  "is_random_walk (RandomWalkEnemy e) = True"
| "is_random_walk e = False"

text \<open>
  An enemy requests a loss during its update when the update returns and has called
  \<open>game_over_lose\<close>.
\<close>

definition requests_lose :: "reading \<Rightarrow> enemy \<Rightarrow> game \<Rightarrow> bool" where
  "requests_lose r e g \<longleftrightarrow>
     (case Enemy_update r e g of Inl err \<Rightarrow> False | Inr (e1, g1) \<Rightarrow> g1 \<noteq> g)"

subsection \<open>The fencing patrol\<close>

text \<open>
  The fencing enemy with \<open>spawnOpt = i\<close> as the generator registers it, and the positions
  it has before each of its first \<open>n\<close> updates.
\<close>

definition fencing_start :: "int \<Rightarrow> fencing_enemy" where
  "fencing_start i = FencingEnemy_create (new_fencing i)"

fun fencing_path :: "nat \<Rightarrow> fencing_enemy \<Rightarrow> (real \<times> real) list" where
  "fencing_path 0 e = []"
| "fencing_path (Suc n) e = position e # fencing_path n (FencingEnemy_move e)"

definition on_perimeter :: "real \<times> real \<Rightarrow> bool" where
  "on_perimeter p \<longleftrightarrow>
     ((snd p = 210 \<or> snd p = 270) \<and> 660 \<le> fst p \<and> fst p \<le> 720) \<or>
     ((fst p = 660 \<or> fst p = 720) \<and> 210 \<le> snd p \<and> snd p \<le> 270)"

text \<open>
  A step of 5 along one axis, and a step of 5 along both. \<open>turning\<close> is the sense of
  travel: rightwards on the edge \<open>y = 210\<close>, then towards larger \<open>y\<close> on \<open>x = 720\<close>,
  leftwards on \<open>y = 270\<close>, towards smaller \<open>y\<close> on \<open>x = 660\<close>.
\<close>

definition axis_step :: "real \<times> real \<Rightarrow> real \<times> real \<Rightarrow> bool" where
  "axis_step p q \<longleftrightarrow>
     (snd q = snd p \<and> \<bar>fst q - fst p\<bar> = 5) \<or> (fst q = fst p \<and> \<bar>snd q - snd p\<bar> = 5)"

definition corner_step :: "real \<times> real \<Rightarrow> real \<times> real \<Rightarrow> bool" where
  "corner_step p q \<longleftrightarrow> \<bar>fst q - fst p\<bar> = 5 \<and> \<bar>snd q - snd p\<bar> = 5"

definition turning :: "real \<times> real \<Rightarrow> real \<times> real \<Rightarrow> bool" where
  "turning p q \<longleftrightarrow>
     (if snd p = 210 \<and> fst p < 720 then fst q = fst p + 5
      else if fst p = 720 \<and> snd p < 270 then snd q = snd p + 5
      else if snd p = 270 \<and> 660 < fst p then fst q = fst p - 5
      else snd q = snd p - 5)"

text \<open>
  The step of update number \<open>k + 1\<close>: it follows the sense of travel; updates 12, 23 and
  34 of a loop of 45 move along both axes, every other along one.
\<close>

definition fencing_step :: "nat \<Rightarrow> real \<times> real \<Rightarrow> real \<times> real \<Rightarrow> bool" where
  "fencing_step k p q \<longleftrightarrow>
     turning p q \<and> (if k mod 45 \<in> {11, 22, 33} then corner_step p q else axis_step p q)"

subsection \<open>Runs of a shooting enemy\<close>




subsection \<open>The state of the centipede's body after the loop has reached index \<open>n\<close>\<close>


section \<open>Properties\<close>

subsection \<open>Distances\<close>

lemma hypot_0_right: "hypot a 0 = \<bar>a\<bar>"
  by (simp add: hypot_def)

lemma hypot_eq_0_iff: "hypot a b = 0 \<longleftrightarrow> a = 0 \<and> b = 0"
  by (simp add: hypot_def add_nonneg_eq_0_iff)


subsection \<open>Pursuit on top of the player\<close>

lemma pursue_size: "pursue e g = Inr e1 \<Longrightarrow> enemy_size e1 = enemy_size e"
  by (auto simp: pursue_def Let_def split: if_splits)

lemma pursue_returns:
  assumes "(player_x g, player_y g) \<noteq> (x e, y e)"
  shows "\<exists>e1. pursue e g = Inr e1 \<and> e1 = e\<lparr>x := x e1, y := y e1\<rparr>"
proof -
  have "hypot (player_x g - x e) (player_y g - y e) \<noteq> 0"
    using assms by (auto simp: hypot_eq_0_iff)
  then show ?thesis by (simp add: pursue_def Let_def)
qed

text \<open>
  Claim C3 says that an update of a chasing enemy or of a centipede whose position is
  exactly the player's skips the move and raises no division fault. The code divides by
  the distance without a test. In a session of 800 by 500 with the player at (50, 250):
  a chasing enemy at (50, 250) raises \<open>ZeroDivisionError\<close>; a chasing enemy of speed 3 at
  (47, 250) moves onto the player without a loss (the box test is strict) and raises
  at its next update; a centipede created at (50, 250) raises.
\<close>

theorem pursuit_on_player_raises:
  "ChasingEnemy_update \<lparr>x = 50, y = 250, enemy_size = 20, color = ''green'', speed = 3\<rparr>
     (session 800 500) = Inl ZeroDivisionError
   \<and> ChasingEnemy_update \<lparr>x = 47, y = 250, enemy_size = 20, color = ''green'', speed = 3\<rparr>
       (session 800 500)
     = Inr (\<lparr>x = 50, y = 250, enemy_size = 20, color = ''green'', speed = 3\<rparr>, session 800 500)
   \<and> CentipedeEnemy_update
       (CentipedeEnemy_create \<lparr>x = 50, y = 250, enemy_size = 10, color = ''yellow'', speed = 4,
          body_segments = [], segment_spacing = 10, centipede_length = 10\<rparr>)
       (session 800 500) = Inl ZeroDivisionError"
  by (simp add: ChasingEnemy_update_def CentipedeEnemy_update_def CentipedeEnemy_create_def
        pursue_def session_def hypot_0_right check_out_of_bound_def SCREEN_WIDTH_def
        SCREEN_HEIGHT_def in_box_def)

subsection \<open>The chasing enemy's bounds\<close>

lemma check_out_of_bound_range:
  assumes "enemy_size e \<le> 500"
  shows "0 \<le> x (check_out_of_bound e) \<and> x (check_out_of_bound e) \<le> 800 - enemy_size e
       \<and> 0 \<le> y (check_out_of_bound e) \<and> y (check_out_of_bound e) \<le> 500 - enemy_size e"
  using assms by (simp add: check_out_of_bound_def SCREEN_WIDTH_def SCREEN_HEIGHT_def Let_def)

lemma check_out_of_bound_size: "enemy_size (check_out_of_bound e) = enemy_size e"
  by (simp add: check_out_of_bound_def Let_def)

text \<open>
  Claim C5, as amended: whatever the session's screen size, after an update of a chasing
  enemy of size at most 500 that returns (the enemy is not exactly on the player), the
  enemy's position is within \<open>[0, 800 - size] \<times> [0, 500 - size]\<close>: the bounds are the
  module's constants \<open>SCREEN_WIDTH\<close> and \<open>SCREEN_HEIGHT\<close>, and such an update returns.
\<close>

theorem ChasingEnemy_update_clamped:
  assumes "enemy_size e \<le> 500" and "(player_x g, player_y g) \<noteq> (x e, y e)"
  shows "\<exists>e' g'. ChasingEnemy_update e g = Inr (e', g')
           \<and> 0 \<le> x e' \<and> x e' \<le> 800 - enemy_size e'
           \<and> 0 \<le> y e' \<and> y e' \<le> 500 - enemy_size e'"
proof -
  from pursue_returns [OF assms(2)] obtain e1 where p: "pursue e g = Inr e1"
    by blast
  have "enemy_size e1 \<le> 500" using pursue_size [OF p] assms(1) by simp
  from check_out_of_bound_range [OF this] p show ?thesis
    by (simp add: ChasingEnemy_update_def Let_def check_out_of_bound_size)
qed

theorem ChasingEnemy_update_clamped_witness:
  "\<exists>e' g'. ChasingEnemy_update \<lparr>x = 900, y = 250, enemy_size = 20, color = ''green'', speed = 3\<rparr>
              (session 400 300) = Inr (e', g')
           \<and> 0 \<le> x e' \<and> x e' \<le> 800 - enemy_size e'
           \<and> 0 \<le> y e' \<and> y e' \<le> 500 - enemy_size e'"
  using ChasingEnemy_update_clamped
          [of "\<lparr>x = 900, y = 250, enemy_size = 20, color = ''green'', speed = 3\<rparr>" "session 400 300"]
  by (simp add: session_def)

text \<open>
  The claim as stated, with the session's own screen size, fails: in a session of 400 by
  300 a chasing enemy of size 20 at (500, 150) is at (497, 150) after its update, beyond
  \<open>screen_width - size = 380\<close>.
\<close>

theorem clamp_ignores_session_size:
  "ChasingEnemy_update \<lparr>x = 500, y = 150, enemy_size = 20, color = ''green'', speed = 3\<rparr>
     (session 400 300)
   = Inr (\<lparr>x = 497, y = 150, enemy_size = 20, color = ''green'', speed = 3\<rparr>, session 400 300)
   \<and> \<not> (497 \<le> real_of_int (screen_width (session 400 300)) - (20::real))"
  by (simp add: ChasingEnemy_update_def pursue_def session_def hypot_0_right
        check_out_of_bound_def SCREEN_WIDTH_def SCREEN_HEIGHT_def in_box_def)

subsection \<open>Collisions\<close>

lemma game_over_lose_neq: "game_over_lose g \<noteq> g"
proof
  assume "game_over_lose g = g"
  then have "canvas_text (game_over_lose g) = canvas_text g" by simp
  then show False by (simp add: game_over_lose_def stop_def Let_def)
qed

lemma Chasing_collision:
  "ChasingEnemy_update e g = Inr (e', g') \<Longrightarrow> g' = (if in_box e' g then game_over_lose g else g)"
  by (auto simp: ChasingEnemy_update_def Let_def split: sum.splits)

lemma Fencing_collision:
  "FencingEnemy_update e g = (e', g') \<Longrightarrow> g' = (if in_box e' g then game_over_lose g else g)"
  by (auto simp: FencingEnemy_update_def Let_def)

lemma Centipede_collision:
  "CentipedeEnemy_update e g = Inr (e', g') \<Longrightarrow> g' = (if in_box e' g then game_over_lose g else g)"
  by (auto simp: CentipedeEnemy_update_def Let_def in_box_def split: sum.splits if_splits)

lemma RandomWalk_collision:
  "RandomWalkEnemy_update cx cy e g = Inr (e', g') \<Longrightarrow>
     g' = (if hits_player e' g then game_over_lose g else g)"
  by (auto simp: RandomWalkEnemy_update_def Let_def split: if_splits)






subsection \<open>The generator\<close>

lemma add_element_enemies: "enemies (add_element e g) = enemies g"
  by (simp add: add_element_def)

lemma add_enemy_enemies: "enemies (add_enemy e g) = enemies g @ [Enemy_create e]"
  by (simp add: add_enemy_def add_element_def)

lemma add_enemy_elements: "elements (add_enemy e g) = elements g @ [Enemy_create e]"
  by (simp add: add_enemy_def add_element_def)

lemma is_random_walk_create: "is_random_walk (Enemy_create e) = is_random_walk e"
  by (cases e) simp_all

lemma create_fencing_enemies:
  "enemies (create_fencing g) = enemies g @
     [FencingEnemy \<lparr>x = 720, y = 270, enemy_size = 10, color = ''red'', speed = 5, spawnOpt = Some 0\<rparr>,
      FencingEnemy \<lparr>x = 660, y = 210, enemy_size = 10, color = ''red'', speed = 5, spawnOpt = Some 1\<rparr>,
      FencingEnemy \<lparr>x = 720, y = 210, enemy_size = 10, color = ''red'', speed = 5, spawnOpt = Some 2\<rparr>,
      FencingEnemy \<lparr>x = 660, y = 270, enemy_size = 10, color = ''red'', speed = 5, spawnOpt = Some 3\<rparr>]"
  by (simp add: create_fencing_def add_enemy_enemies new_fencing_def FencingEnemy_create_def)

lemma create_fencing_elements:
  "elements (create_fencing g) = elements g @
     [FencingEnemy \<lparr>x = 720, y = 270, enemy_size = 10, color = ''red'', speed = 5, spawnOpt = Some 0\<rparr>,
      FencingEnemy \<lparr>x = 660, y = 210, enemy_size = 10, color = ''red'', speed = 5, spawnOpt = Some 1\<rparr>,
      FencingEnemy \<lparr>x = 720, y = 210, enemy_size = 10, color = ''red'', speed = 5, spawnOpt = Some 2\<rparr>,
      FencingEnemy \<lparr>x = 660, y = 270, enemy_size = 10, color = ''red'', speed = 5, spawnOpt = Some 3\<rparr>]"
  by (simp add: create_fencing_def add_enemy_elements new_fencing_def FencingEnemy_create_def)

lemmas factory_defs = create_centipede_def create_randomWalkenemy_def create_ShootingEnemy_def
  create_chasing_def

text \<open>What each of the other factories registers, and where.\<close>

lemma create_randomWalkenemy_lists:
  "enemies (create_randomWalkenemy rx ry g) = enemies g
   \<and> elements (create_randomWalkenemy rx ry g)
       = elements g @ [RandomWalkEnemy \<lparr>x = real_of_int rx, y = real_of_int ry, enemy_size = 20,
                                         color = ''blue'', op = []\<rparr>]"
  by (simp add: create_randomWalkenemy_def add_element_def Let_def)

lemma create_chasing_lists:
  "enemies (create_chasing rs rx ry g)
       = enemies g @ [ChasingEnemy \<lparr>x = real_of_int rx, y = real_of_int ry, enemy_size = 20,
                                     color = ''green'', speed = real_of_int rs\<rparr>]
   \<and> elements (create_chasing rs rx ry g)
       = elements g @ [ChasingEnemy \<lparr>x = real_of_int rx, y = real_of_int ry, enemy_size = 20,
                                      color = ''green'', speed = real_of_int rs\<rparr>]"
  by (simp add: create_chasing_def add_enemy_enemies add_enemy_elements Let_def)

lemma create_centipede_lists:
  "enemies (create_centipede rx ry g)
       = enemies g @ [CentipedeEnemy \<lparr>x = real_of_int rx, y = real_of_int ry, enemy_size = 10,
                        color = ''yellow'', speed = 4,
                        body_segments = (real_of_int rx, real_of_int ry)
                          # map (\<lambda>i. (real_of_int rx - real i * 10, real_of_int ry)) [1..<10],
                        segment_spacing = 10, centipede_length = 10\<rparr>]
   \<and> elements (create_centipede rx ry g)
       = elements g @ [CentipedeEnemy \<lparr>x = real_of_int rx, y = real_of_int ry, enemy_size = 10,
                        color = ''yellow'', speed = 4,
                        body_segments = (real_of_int rx, real_of_int ry)
                          # map (\<lambda>i. (real_of_int rx - real i * 10, real_of_int ry)) [1..<10],
                        segment_spacing = 10, centipede_length = 10\<rparr>]"
  by (simp add: create_centipede_def add_enemy_enemies add_enemy_elements Let_def
        CentipedeEnemy_create_def)

lemma create_ShootingEnemy_lists:
  "enemies (create_ShootingEnemy now rx ry g)
       = enemies g @ [ShootingEnemy \<lparr>x = real_of_int rx, y = real_of_int ry, enemy_size = 10,
                        color = ''brown'', ball_speed = 10, ball = None, old_balls = [],
                        last_shot_time = now\<rparr>]
   \<and> elements (create_ShootingEnemy now rx ry g)
       = elements g @ [ShootingEnemy \<lparr>x = real_of_int rx, y = real_of_int ry, enemy_size = 10,
                        color = ''brown'', ball_speed = 10, ball = None, old_balls = [],
                        last_shot_time = now\<rparr>]"
  by (simp add: create_ShootingEnemy_def add_enemy_enemies add_enemy_elements Let_def)

lemma fire_no_random_walk:
  "\<forall>e \<in> set (enemies g). \<not> is_random_walk e \<Longrightarrow>
   \<forall>e \<in> set (enemies (fire d c g)). \<not> is_random_walk e"
  by (cases c)
     (auto simp: create_fencing_enemies create_randomWalkenemy_lists create_chasing_lists
        create_centipede_lists create_ShootingEnemy_lists)

lemma fire_all_no_random_walk:
  "\<forall>e \<in> set (enemies g). \<not> is_random_walk e \<Longrightarrow>
   \<forall>e \<in> set (enemies (fire_all cs g)). \<not> is_random_walk e"
proof (induction cs arbitrary: g)
  case Nil
  then show ?case by simp
next
  case (Cons a cs)
  obtain d c where a: "a = (d, c)" by (cases a)
  from Cons.prems have "\<forall>e \<in> set (enemies (fire d c g)). \<not> is_random_walk e"
    by (rule fire_no_random_walk)
  then show ?case using Cons.IH a by simp
qed

text \<open>
  \<open>enemies\<close> and the element list stay in step: if \<open>enemies\<close> is the element list without
  its random-walk enemies, it is so after any callback.
\<close>

lemma fire_enemies_of_elements:
  "enemies g = filter (\<lambda>e. \<not> is_random_walk e) (elements g) \<Longrightarrow>
   enemies (fire d c g) = filter (\<lambda>e. \<not> is_random_walk e) (elements (fire d c g))"
  by (cases c)
     (simp_all add: create_fencing_enemies create_fencing_elements create_randomWalkenemy_lists
        create_chasing_lists create_centipede_lists create_ShootingEnemy_lists)

lemma fire_all_enemies_of_elements:
  "enemies g = filter (\<lambda>e. \<not> is_random_walk e) (elements g) \<Longrightarrow>
   enemies (fire_all cs g) = filter (\<lambda>e. \<not> is_random_walk e) (elements (fire_all cs g))"
proof (induction cs arbitrary: g)
  case Nil
  then show ?case by simp
next
  case (Cons a cs)
  obtain d c where a: "a = (d, c)" by (cases a)
  from Cons.prems
  have "enemies (fire d c g) = filter (\<lambda>e. \<not> is_random_walk e) (elements (fire d c g))"
    by (rule fire_enemies_of_elements)
  then show ?case using Cons.IH a by simp
qed

text \<open>
  Claim C10. \<open>create_randomWalkenemy\<close> registers its enemy through \<open>add_element\<close> only and
  leaves \<open>enemies\<close> as it is; each other factory registers through \<open>add_enemy\<close>, which
  appends to \<open>enemies\<close> the enemy it registers: the chasing enemy, the centipede with its
  ten segments, the shooting enemy, the four fencing enemies on their corners. So
  whatever callbacks fire, in whatever order and with whatever random draws, \<open>enemies\<close>
  holds no random-walk enemy if it held none before; and in a session that started with
  no enemy, \<open>enemies\<close> is the element list without its random-walk enemies: every other
  registered enemy is in it, in registration order, and no random-walk enemy ever is.
\<close>

theorem random_walk_never_in_enemies:
  "enemies (create_randomWalkenemy rx ry g) = enemies g
   \<and> elements (create_randomWalkenemy rx ry g)
       = elements g @ [RandomWalkEnemy \<lparr>x = real_of_int rx, y = real_of_int ry, enemy_size = 20,
                                         color = ''blue'', op = []\<rparr>]
   \<and> enemies (create_chasing rs rx ry g)
       = enemies g @ [ChasingEnemy \<lparr>x = real_of_int rx, y = real_of_int ry, enemy_size = 20,
                                     color = ''green'', speed = real_of_int rs\<rparr>]
   \<and> elements (create_chasing rs rx ry g)
       = elements g @ [ChasingEnemy \<lparr>x = real_of_int rx, y = real_of_int ry, enemy_size = 20,
                                      color = ''green'', speed = real_of_int rs\<rparr>]
   \<and> enemies (create_centipede rx ry g)
       = enemies g @ [CentipedeEnemy \<lparr>x = real_of_int rx, y = real_of_int ry, enemy_size = 10,
                        color = ''yellow'', speed = 4,
                        body_segments = (real_of_int rx, real_of_int ry)
                          # map (\<lambda>i. (real_of_int rx - real i * 10, real_of_int ry)) [1..<10],
                        segment_spacing = 10, centipede_length = 10\<rparr>]
   \<and> elements (create_centipede rx ry g)
       = elements g @ [CentipedeEnemy \<lparr>x = real_of_int rx, y = real_of_int ry, enemy_size = 10,
                        color = ''yellow'', speed = 4,
                        body_segments = (real_of_int rx, real_of_int ry)
                          # map (\<lambda>i. (real_of_int rx - real i * 10, real_of_int ry)) [1..<10],
                        segment_spacing = 10, centipede_length = 10\<rparr>]
   \<and> enemies (create_ShootingEnemy now rx ry g)
       = enemies g @ [ShootingEnemy \<lparr>x = real_of_int rx, y = real_of_int ry, enemy_size = 10,
                        color = ''brown'', ball_speed = 10, ball = None, old_balls = [],
                        last_shot_time = now\<rparr>]
   \<and> elements (create_ShootingEnemy now rx ry g)
       = elements g @ [ShootingEnemy \<lparr>x = real_of_int rx, y = real_of_int ry, enemy_size = 10,
                        color = ''brown'', ball_speed = 10, ball = None, old_balls = [],
                        last_shot_time = now\<rparr>]
   \<and> enemies (create_fencing g) = enemies g @
       [FencingEnemy \<lparr>x = 720, y = 270, enemy_size = 10, color = ''red'', speed = 5, spawnOpt = Some 0\<rparr>,
        FencingEnemy \<lparr>x = 660, y = 210, enemy_size = 10, color = ''red'', speed = 5, spawnOpt = Some 1\<rparr>,
        FencingEnemy \<lparr>x = 720, y = 210, enemy_size = 10, color = ''red'', speed = 5, spawnOpt = Some 2\<rparr>,
        FencingEnemy \<lparr>x = 660, y = 270, enemy_size = 10, color = ''red'', speed = 5, spawnOpt = Some 3\<rparr>]
   \<and> elements (create_fencing g) = elements g @
       [FencingEnemy \<lparr>x = 720, y = 270, enemy_size = 10, color = ''red'', speed = 5, spawnOpt = Some 0\<rparr>,
        FencingEnemy \<lparr>x = 660, y = 210, enemy_size = 10, color = ''red'', speed = 5, spawnOpt = Some 1\<rparr>,
        FencingEnemy \<lparr>x = 720, y = 210, enemy_size = 10, color = ''red'', speed = 5, spawnOpt = Some 2\<rparr>,
        FencingEnemy \<lparr>x = 660, y = 270, enemy_size = 10, color = ''red'', speed = 5, spawnOpt = Some 3\<rparr>]
   \<and> ((\<forall>e \<in> set (enemies g). \<not> is_random_walk e) \<longrightarrow>
        (\<forall>e \<in> set (enemies (fire_all cs g)). \<not> is_random_walk e))
   \<and> (\<forall>e \<in> set (enemies (fire_all cs (session w h))). \<not> is_random_walk e)
   \<and> enemies (fire_all cs (session w h))
       = filter (\<lambda>e. \<not> is_random_walk e) (elements (fire_all cs (session w h)))"
proof -
  have "\<forall>e \<in> set (enemies (session w h)). \<not> is_random_walk e"
    by (simp add: session_def)
  then have 1: "\<forall>e \<in> set (enemies (fire_all cs (session w h))). \<not> is_random_walk e"
    by (rule fire_all_no_random_walk)
  have 2: "(\<forall>e \<in> set (enemies g). \<not> is_random_walk e) \<longrightarrow>
        (\<forall>e \<in> set (enemies (fire_all cs g)). \<not> is_random_walk e)"
    using fire_all_no_random_walk [of g cs] by blast
  have "enemies (session w h) = filter (\<lambda>e. \<not> is_random_walk e) (elements (session w h))"
    by (simp add: session_def)
  then have 3: "enemies (fire_all cs (session w h))
       = filter (\<lambda>e. \<not> is_random_walk e) (elements (fire_all cs (session w h)))"
    by (rule fire_all_enemies_of_elements)
  from 1 2 3 create_randomWalkenemy_lists [of rx ry g] create_chasing_lists [of rs rx ry g]
    create_centipede_lists [of rx ry g] create_ShootingEnemy_lists [of now rx ry g]
    create_fencing_enemies [of g] create_fencing_elements [of g]
  show ?thesis by blast
qed

theorem random_walk_never_in_enemies_witness:
  "enemies (fire_all [(\<lparr>rand_x = 10, rand_y = 20, rand_speed = 2, clock = 0\<rparr>, Create_randomWalkenemy),
                      (\<lparr>rand_x = 30, rand_y = 40, rand_speed = 3, clock = 0\<rparr>, Create_chasing),
                      (\<lparr>rand_x = 50, rand_y = 60, rand_speed = 2, clock = 0\<rparr>, Create_randomWalkenemy)]
              (session 800 500))
   = [ChasingEnemy \<lparr>x = 30, y = 40, enemy_size = 20, color = ''green'', speed = 3\<rparr>]
   \<and> elements (fire_all [(\<lparr>rand_x = 10, rand_y = 20, rand_speed = 2, clock = 0\<rparr>, Create_randomWalkenemy),
                      (\<lparr>rand_x = 30, rand_y = 40, rand_speed = 3, clock = 0\<rparr>, Create_chasing),
                      (\<lparr>rand_x = 50, rand_y = 60, rand_speed = 2, clock = 0\<rparr>, Create_randomWalkenemy)]
              (session 800 500))
   = [RandomWalkEnemy \<lparr>x = 10, y = 20, enemy_size = 20, color = ''blue'', op = []\<rparr>,
      ChasingEnemy \<lparr>x = 30, y = 40, enemy_size = 20, color = ''green'', speed = 3\<rparr>,
      RandomWalkEnemy \<lparr>x = 50, y = 60, enemy_size = 20, color = ''blue'', op = []\<rparr>]
   \<and> list_all (\<lambda>e. \<not> is_random_walk e)
       (enemies (fire_all [(\<lparr>rand_x = 10, rand_y = 20, rand_speed = 2, clock = 0\<rparr>, Create_randomWalkenemy),
                      (\<lparr>rand_x = 30, rand_y = 40, rand_speed = 3, clock = 0\<rparr>, Create_chasing),
                      (\<lparr>rand_x = 50, rand_y = 60, rand_speed = 2, clock = 0\<rparr>, Create_randomWalkenemy)]
              (session 800 500)))"
  using random_walk_never_in_enemies
    [where g = "session 800 500" and w = 800 and h = 500 and rx = 10 and ry = 20 and
       cs = "[(\<lparr>rand_x = 10, rand_y = 20, rand_speed = 2, clock = 0\<rparr>, Create_randomWalkenemy),
              (\<lparr>rand_x = 30, rand_y = 40, rand_speed = 3, clock = 0\<rparr>, Create_chasing),
              (\<lparr>rand_x = 50, rand_y = 60, rand_speed = 2, clock = 0\<rparr>, Create_randomWalkenemy)]"]
  by (simp add: list_all_iff factory_defs add_enemy_def add_element_def session_def Let_def)

lemma py_range_walk: "py_range 1000 100000 1000 = map (\<lambda>k. 1000 * k) [1..<100]"
proof -
  have "map (\<lambda>k. 1000 + k * 1000) [0..<99] = map (\<lambda>k. 1000 * k) (map Suc [0..<99])"
    by simp
  also have "map Suc [0..<99] = [1..<100]"
    using map_Suc_upt [of 0 99] by simp
  finally show ?thesis by (simp add: py_range_def)
qed

lemma py_range_chase: "py_range 1000 10000 1000 = map (\<lambda>k. 1000 * k) [1..<10]"
proof -
  have "map (\<lambda>k. 1000 + k * 1000) [0..<9] = map (\<lambda>k. 1000 * k) (map Suc [0..<9])"
    by simp
  also have "map Suc [0..<9] = [1..<10]"
    using map_Suc_upt [of 0 9] by simp
  finally show ?thesis by (simp add: py_range_def)
qed

lemma py_range_five: "map (\<lambda>i. c) (py_range 0 5 1) = replicate 5 c"
  by (simp add: py_range_def map_replicate_const)

lemma schedule_eq:
  "EnemyGenerator_init =
     [(100, Create_fencing), (100, Create_centipede), (100, Create_randomWalkenemy)]
     @ replicate 5 (100, Create_ShootingEnemy)
     @ map (\<lambda>k. (1000 * k, Create_randomWalkenemy)) [1..<100]
     @ map (\<lambda>k. (1000 * k, Create_chasing)) [1..<10]"
  unfolding EnemyGenerator_init_def py_range_walk py_range_chase py_range_five
  by (simp add: comp_def)

lemma fire_position:
  assumes "c \<noteq> Create_fencing"
  shows "\<exists>e. elements (fire d c g) = elements g @ [e]
            \<and> enemy_position e = (real_of_int (rand_x d), real_of_int (rand_y d))"
  using assms
  by (cases c)
     (simp_all add: factory_defs add_enemy_def add_element_def Let_def position_def
        CentipedeEnemy_create_def)

text \<open>
  Claim C8, as amended. The generator schedules, in this order: at 100 ms
  \<open>create_fencing\<close>, \<open>create_centipede\<close>, \<open>create_randomWalkenemy\<close> and five times
  \<open>create_ShootingEnemy\<close>; then \<open>create_randomWalkenemy\<close> at 1000, 2000, ..., 99000 ms
  (every 1000 ms below 100000 ms, which is excluded) and \<open>create_chasing\<close> at 1000, 2000,
  ..., 9000 ms (below 10000 ms, which is excluded). When it fires, \<open>create_fencing\<close>
  registers four fencing enemies with \<open>spawnOpt\<close> 0, 1, 2, 3 at their corners;
  \<open>create_centipede\<close> one centipede of ten segments, \<open>create_randomWalkenemy\<close> one
  random-walk enemy, \<open>create_ShootingEnemy\<close> one shooting enemy with no projectile yet and
  \<open>create_chasing\<close> one chasing enemy of the speed drawn, each at the position drawn for
  it; drawn with \<open>x\<close> in 0..600 and \<open>y\<close> in 0..500 that position is within
  \<open>[0, SCREEN_WIDTH] \<times> [0, SCREEN_HEIGHT]\<close>.
\<close>

theorem generator_schedule:
  "EnemyGenerator_init =
     [(100, Create_fencing), (100, Create_centipede), (100, Create_randomWalkenemy)]
     @ replicate 5 (100, Create_ShootingEnemy)
     @ map (\<lambda>k. (1000 * k, Create_randomWalkenemy)) [1..<100]
     @ map (\<lambda>k. (1000 * k, Create_chasing)) [1..<10]
   \<and> elements (fire d Create_fencing g) = elements g @
     [FencingEnemy \<lparr>x = 720, y = 270, enemy_size = 10, color = ''red'', speed = 5, spawnOpt = Some 0\<rparr>,
      FencingEnemy \<lparr>x = 660, y = 210, enemy_size = 10, color = ''red'', speed = 5, spawnOpt = Some 1\<rparr>,
      FencingEnemy \<lparr>x = 720, y = 210, enemy_size = 10, color = ''red'', speed = 5, spawnOpt = Some 2\<rparr>,
      FencingEnemy \<lparr>x = 660, y = 270, enemy_size = 10, color = ''red'', speed = 5, spawnOpt = Some 3\<rparr>]
   \<and> elements (fire d Create_centipede g) = elements g @
     [CentipedeEnemy \<lparr>x = real_of_int (rand_x d), y = real_of_int (rand_y d), enemy_size = 10,
        color = ''yellow'', speed = 4,
        body_segments = (real_of_int (rand_x d), real_of_int (rand_y d))
          # map (\<lambda>i. (real_of_int (rand_x d) - real i * 10, real_of_int (rand_y d))) [1..<10],
        segment_spacing = 10, centipede_length = 10\<rparr>]
   \<and> elements (fire d Create_randomWalkenemy g) = elements g @
     [RandomWalkEnemy \<lparr>x = real_of_int (rand_x d), y = real_of_int (rand_y d), enemy_size = 20,
        color = ''blue'', op = []\<rparr>]
   \<and> elements (fire d Create_ShootingEnemy g) = elements g @
     [ShootingEnemy \<lparr>x = real_of_int (rand_x d), y = real_of_int (rand_y d), enemy_size = 10,
        color = ''brown'', ball_speed = 10, ball = None, old_balls = [],
        last_shot_time = clock d\<rparr>]
   \<and> elements (fire d Create_chasing g) = elements g @
     [ChasingEnemy \<lparr>x = real_of_int (rand_x d), y = real_of_int (rand_y d), enemy_size = 20,
        color = ''green'', speed = real_of_int (rand_speed d)\<rparr>]
   \<and> (c \<noteq> Create_fencing \<and> 0 \<le> rand_x d \<and> rand_x d \<le> 600 \<and> 0 \<le> rand_y d \<and> rand_y d \<le> 500 \<longrightarrow>
       (\<exists>e. elements (fire d c g) = elements g @ [e]
           \<and> enemy_position e = (real_of_int (rand_x d), real_of_int (rand_y d))
           \<and> 0 \<le> fst (enemy_position e) \<and> fst (enemy_position e) \<le> SCREEN_WIDTH
           \<and> 0 \<le> snd (enemy_position e) \<and> snd (enemy_position e) \<le> SCREEN_HEIGHT))"
proof -
  have pos: "\<exists>e. elements (fire d c g) = elements g @ [e]
           \<and> enemy_position e = (real_of_int (rand_x d), real_of_int (rand_y d))
           \<and> 0 \<le> fst (enemy_position e) \<and> fst (enemy_position e) \<le> SCREEN_WIDTH
           \<and> 0 \<le> snd (enemy_position e) \<and> snd (enemy_position e) \<le> SCREEN_HEIGHT"
    if a: "c \<noteq> Create_fencing \<and> 0 \<le> rand_x d \<and> rand_x d \<le> 600 \<and> 0 \<le> rand_y d \<and> rand_y d \<le> 500"
  proof -
    from a obtain e where e: "elements (fire d c g) = elements g @ [e]"
        "enemy_position e = (real_of_int (rand_x d), real_of_int (rand_y d))"
      using fire_position [of c d g] by blast
    with a have "0 \<le> fst (enemy_position e) \<and> fst (enemy_position e) \<le> SCREEN_WIDTH
           \<and> 0 \<le> snd (enemy_position e) \<and> snd (enemy_position e) \<le> SCREEN_HEIGHT"
      by (simp add: SCREEN_WIDTH_def SCREEN_HEIGHT_def)
    with e show ?thesis by blast
  qed
  have f: "elements (fire d Create_fencing g) = elements (create_fencing g)"
          "elements (fire d Create_centipede g) = elements (create_centipede (rand_x d) (rand_y d) g)"
          "elements (fire d Create_randomWalkenemy g)
             = elements (create_randomWalkenemy (rand_x d) (rand_y d) g)"
          "elements (fire d Create_ShootingEnemy g)
             = elements (create_ShootingEnemy (clock d) (rand_x d) (rand_y d) g)"
          "elements (fire d Create_chasing g)
             = elements (create_chasing (rand_speed d) (rand_x d) (rand_y d) g)"
    by simp_all
  from pos schedule_eq show ?thesis
    unfolding f
    using create_fencing_elements [of g] create_centipede_lists [of "rand_x d" "rand_y d" g]
      create_randomWalkenemy_lists [of "rand_x d" "rand_y d" g]
      create_ShootingEnemy_lists [of "clock d" "rand_x d" "rand_y d" g]
      create_chasing_lists [of "rand_speed d" "rand_x d" "rand_y d" g]
    by blast
qed

theorem generator_schedule_witness:
  "elements (fire \<lparr>rand_x = 600, rand_y = 500, rand_speed = 2, clock = 0\<rparr> Create_chasing
               (session 800 500))
     = [ChasingEnemy \<lparr>x = 600, y = 500, enemy_size = 20, color = ''green'', speed = 2\<rparr>]
   \<and> (\<exists>e. elements (fire \<lparr>rand_x = 600, rand_y = 500, rand_speed = 2, clock = 0\<rparr>
                        Create_centipede (session 800 500)) = [e]
       \<and> enemy_position e = (600, 500)
       \<and> fst (enemy_position e) \<le> SCREEN_WIDTH \<and> snd (enemy_position e) \<le> SCREEN_HEIGHT)"
proof -
  let ?d = "\<lparr>rand_x = 600, rand_y = 500, rand_speed = 2, clock = 0\<rparr>"
  note t = generator_schedule [where c = Create_centipede and g = "session 800 500" and d = ?d]
  from t have "elements (fire ?d Create_chasing (session 800 500)) = elements (session 800 500) @
     [ChasingEnemy \<lparr>x = real_of_int (rand_x ?d), y = real_of_int (rand_y ?d), enemy_size = 20,
        color = ''green'', speed = real_of_int (rand_speed ?d)\<rparr>]"
    by blast
  then have 1: "elements (fire ?d Create_chasing (session 800 500))
     = [ChasingEnemy \<lparr>x = 600, y = 500, enemy_size = 20, color = ''green'', speed = 2\<rparr>]"
    by (simp add: session_def)
  from t have "Create_centipede \<noteq> Create_fencing \<and> 0 \<le> rand_x ?d \<and> rand_x ?d \<le> 600
        \<and> 0 \<le> rand_y ?d \<and> rand_y ?d \<le> 500 \<longrightarrow>
       (\<exists>e. elements (fire ?d Create_centipede (session 800 500)) = elements (session 800 500) @ [e]
           \<and> enemy_position e = (real_of_int (rand_x ?d), real_of_int (rand_y ?d))
           \<and> 0 \<le> fst (enemy_position e) \<and> fst (enemy_position e) \<le> SCREEN_WIDTH
           \<and> 0 \<le> snd (enemy_position e) \<and> snd (enemy_position e) \<le> SCREEN_HEIGHT)"
    by blast
  then have 2: "\<exists>e. elements (fire ?d Create_centipede (session 800 500)) = [e]
       \<and> enemy_position e = (600, 500)
       \<and> fst (enemy_position e) \<le> SCREEN_WIDTH \<and> snd (enemy_position e) \<le> SCREEN_HEIGHT"
    by (auto simp: session_def)
  from 1 2 show ?thesis by blast
qed

text \<open>
  The claim as stated, read with its bounds included, fails: no random-walk enemy is
  scheduled at 100000 ms and no chasing enemy at 10000 ms.
\<close>

theorem schedule_stops_before_bound:
  "(100000, Create_randomWalkenemy) \<notin> set EnemyGenerator_init
   \<and> (10000, Create_chasing) \<notin> set EnemyGenerator_init
   \<and> (99000, Create_randomWalkenemy) \<in> set EnemyGenerator_init
   \<and> (9000, Create_chasing) \<in> set EnemyGenerator_init"
  by (auto simp: schedule_eq)

subsection \<open>The terminal state\<close>

lemma pursue_frame:
  "player_x g1 = player_x g \<Longrightarrow> player_y g1 = player_y g \<Longrightarrow> pursue e g1 = pursue e g"
  by (simp add: pursue_def)

lemma in_box_frame:
  "player_x g1 = player_x g \<Longrightarrow> player_y g1 = player_y g \<Longrightarrow> in_box e g1 = in_box e g"
  by (simp add: in_box_def)

lemma hits_player_frame:
  "player_x g1 = player_x g \<Longrightarrow> player_y g1 = player_y g \<Longrightarrow>
   hits_player e g1 = hits_player e g"
  by (simp add: hits_player_def)

text \<open>
  An update reads the player's position and nothing else of the session: two sessions
  with the player at the same place give the same enemy, the same error and the same
  decision to call \<open>game_over_lose\<close>.
\<close>

lemma Enemy_update_frame:
  assumes "player_x g1 = player_x g" and "player_y g1 = player_y g"
  shows "map_sum id (\<lambda>(e', g'). (e', g' \<noteq> g1)) (Enemy_update r e g1)
       = map_sum id (\<lambda>(e', g'). (e', g' \<noteq> g)) (Enemy_update r e g)"
proof (cases e)
  case (RandomWalkEnemy w)
  then show ?thesis
    by (simp add: RandomWalkEnemy_update_def Let_def hits_player_frame [OF assms]
          game_over_lose_neq)
next
  case (ChasingEnemy c)
  then show ?thesis
    by (simp add: ChasingEnemy_update_def Let_def pursue_frame [OF assms] in_box_frame [OF assms]
          game_over_lose_neq split: sum.splits)
next
  case (FencingEnemy f)
  then show ?thesis
    by (simp add: FencingEnemy_update_def Let_def in_box_frame [OF assms] game_over_lose_neq)
next
  case (CentipedeEnemy p)
  then show ?thesis
    by (simp add: CentipedeEnemy_update_def Let_def pursue_frame [OF assms] in_box_frame [OF assms]
          game_over_lose_neq split: sum.splits)
next
  case (ShootingEnemy s)
  then show ?thesis
    by (simp add: ShootingEnemy_update_def shoot_ball_def Let_def assms game_over_lose_neq
          split: option.splits)
qed

lemma Enemy_update_flag:
  "map_sum id fst (Enemy_update r e (g\<lparr>is_started := b\<rparr>)) = map_sum id fst (Enemy_update r e g)"
proof -
  have "map_sum id fst (Enemy_update r e h)
      = map_sum id fst (map_sum id (\<lambda>(e', g'). (e', g' \<noteq> h)) (Enemy_update r e h))" for h
    by (cases "Enemy_update r e h") auto
  then show ?thesis
    using Enemy_update_frame [of "g\<lparr>is_started := b\<rparr>" g r e] by simp
qed

lemma fire_flag: "fire d c (g\<lparr>is_started := b\<rparr>) = (fire d c g)\<lparr>is_started := b\<rparr>"
  by (cases c)
     (simp_all add: create_fencing_def factory_defs add_enemy_def add_element_def Let_def)

lemma fire_grows: "length (elements g) < length (elements (fire d c g))"
  by (cases c)
     (simp_all add: create_fencing_def factory_defs add_enemy_def add_element_def Let_def)

text \<open>
  Claim C1, as amended. \<open>game_over_win\<close> and \<open>game_over_lose\<close> clear the flag that keeps
  the loop running and draw the banner; they change no entity list and leave the player
  where it is. No callback and no update tests that flag. A generator callback does to a
  session that has ended exactly what it does to a running one, and it always makes the
  element list longer. An update of an enemy moves the enemy, or raises, exactly as in a
  running session. Whether anything stands still after the terminal state rests on the
  host's loop no longer calling \<open>update\<close>, not on a guard in the callbacks.
\<close>

theorem terminal_flag_is_never_read:
  "\<not> is_started (game_over_lose g) \<and> \<not> is_started (game_over_win g)
   \<and> enemies (game_over_lose g) = enemies g \<and> elements (game_over_lose g) = elements g
   \<and> enemies (game_over_win g) = enemies g \<and> elements (game_over_win g) = elements g
   \<and> player_x (game_over_lose g) = player_x g \<and> player_y (game_over_lose g) = player_y g
   \<and> fire d c (g\<lparr>is_started := b\<rparr>) = (fire d c g)\<lparr>is_started := b\<rparr>
   \<and> length (elements g) < length (elements (fire d c g))
   \<and> map_sum id fst (Enemy_update r e (g\<lparr>is_started := b\<rparr>))
       = map_sum id fst (Enemy_update r e g)"
  using fire_flag [where d = d and c = c and g = g and b = b] fire_grows [of g d c]
    Enemy_update_flag [where r = r and e = e and g = g and b = b]
  by (simp add: game_over_lose_def game_over_win_def stop_def Let_def)

theorem terminal_flag_is_never_read_witness:
  "length (elements (fire \<lparr>rand_x = 10, rand_y = 20, rand_speed = 3, clock = 0\<rparr> Create_fencing
                      (game_over_win (session 800 500)))) = 4
   \<and> map_sum id fst
        (Enemy_update \<lparr>choice_x = ''+'', choice_y = ''-'', time_now = 0\<rparr>
           (RandomWalkEnemy \<lparr>x = 10, y = 20, enemy_size = 20, color = ''blue'', op = []\<rparr>)
           ((session 800 500)\<lparr>is_started := False\<rparr>))
      = Inr (RandomWalkEnemy \<lparr>x = 11, y = 19, enemy_size = 20, color = ''blue'', op = [''+'', ''-'']\<rparr>)"
proof -
  let ?r = "\<lparr>choice_x = ''+'', choice_y = ''-'', time_now = 0\<rparr>"
  let ?e = "RandomWalkEnemy \<lparr>x = 10, y = 20, enemy_size = 20, color = ''blue'', op = []\<rparr>"
  have "map_sum id fst (Enemy_update ?r ?e (session 800 500))
      = Inr (RandomWalkEnemy \<lparr>x = 11, y = 19, enemy_size = 20, color = ''blue'', op = [''+'', ''-'']\<rparr>)"
    by (simp add: RandomWalkEnemy_update_def Let_def)
  then have "map_sum id fst (Enemy_update ?r ?e ((session 800 500)\<lparr>is_started := False\<rparr>))
      = Inr (RandomWalkEnemy \<lparr>x = 11, y = 19, enemy_size = 20, color = ''blue'', op = [''+'', ''-'']\<rparr>)"
    using terminal_flag_is_never_read [where g = "session 800 500" and r = ?r and e = ?e and b = False]
    by simp
  then show ?thesis
    by (simp add: create_fencing_def add_enemy_def add_element_def game_over_win_def stop_def
          session_def Let_def)
qed

text \<open>
  The claim as stated fails: after \<open>game_over_lose\<close> on a session with no enemy, the
  callback \<open>create_chasing\<close> still appends its enemy to \<open>enemies\<close>.
\<close>

theorem spawn_after_lose_changes_enemies:
  "\<not> is_started (game_over_lose (session 800 500))
   \<and> enemies (game_over_lose (session 800 500)) = []
   \<and> enemies (fire \<lparr>rand_x = 10, rand_y = 20, rand_speed = 3, clock = 0\<rparr> Create_chasing
                (game_over_lose (session 800 500)))
     = [ChasingEnemy \<lparr>x = 10, y = 20, enemy_size = 20, color = ''green'', speed = 3\<rparr>]"
  by (simp add: game_over_lose_def stop_def session_def create_chasing_def add_enemy_def
        add_element_def Let_def)

subsection \<open>Several requests in one pass\<close>

lemma Shooting_lose_or_same:
  "ShootingEnemy_update t e g = (e', g') \<Longrightarrow> g' = g \<or> g' = game_over_lose g"
  by (auto simp: ShootingEnemy_update_def Let_def split: option.splits if_splits)

lemma Enemy_update_lose_or_same:
  assumes "Enemy_update r e g = Inr (e', g')"
  shows "g' = g \<or> g' = game_over_lose g"
proof (cases e)
  case (RandomWalkEnemy w)
  with assms obtain w' where
    "RandomWalkEnemy_update (choice_x r) (choice_y r) w g = Inr (w', g')"
    by (cases "RandomWalkEnemy_update (choice_x r) (choice_y r) w g") auto
  from RandomWalk_collision [OF this] show ?thesis by (simp split: if_splits)
next
  case (ChasingEnemy c)
  with assms obtain c' where "ChasingEnemy_update c g = Inr (c', g')"
    by (cases "ChasingEnemy_update c g") auto
  from Chasing_collision [OF this] show ?thesis by (simp split: if_splits)
next
  case (FencingEnemy f)
  with assms obtain f' where "FencingEnemy_update f g = (f', g')"
    by (cases "FencingEnemy_update f g") auto
  from Fencing_collision [OF this] show ?thesis by (simp split: if_splits)
next
  case (CentipedeEnemy p)
  with assms obtain p' where "CentipedeEnemy_update p g = Inr (p', g')"
    by (cases "CentipedeEnemy_update p g") auto
  from Centipede_collision [OF this] show ?thesis by (simp split: if_splits)
next
  case (ShootingEnemy s)
  with assms obtain s' where "ShootingEnemy_update (time_now r) s g = (s', g')"
    by (cases "ShootingEnemy_update (time_now r) s g") auto
  from Shooting_lose_or_same [OF this] show ?thesis .
qed

lemma requests_lose_frame:
  assumes "player_x g1 = player_x g" and "player_y g1 = player_y g"
  shows "requests_lose r e g1 = requests_lose r e g"
proof -
  have "requests_lose r e h
      = (case map_sum id (\<lambda>(e', g'). (e', g' \<noteq> h)) (Enemy_update r e h) of
           Inl err \<Rightarrow> False | Inr (e1, b) \<Rightarrow> b)" for h
    by (simp add: requests_lose_def split: sum.splits prod.splits)
  then show ?thesis using Enemy_update_frame [OF assms] by simp
qed

lemma game_over_lose_funpow:
  "(game_over_lose ^^ n) g =
     g\<lparr>is_started := (if n = 0 then is_started g else False),
       canvas_text := canvas_text g @ replicate n (''You Lose'', ''red'')\<rparr>"
proof (induction n)
  case 0
  then show ?case by simp
next
  case (Suc n)
  then show ?case
    by (simp add: game_over_lose_def stop_def Let_def replicate_append_same)
qed

lemma update_pass_count:
  "update_pass res g = Inr (es, g') \<Longrightarrow>
     g' = (game_over_lose ^^ length (filter (\<lambda>(r, e). requests_lose r e g) res)) g"
proof (induction res arbitrary: g es g')
  case Nil
  then show ?case by simp
next
  case (Cons a res)
  obtain r e where a: "a = (r, e)" by (cases a)
  from Cons.prems a obtain e1 g1 es1 where
    u: "Enemy_update r e g = Inr (e1, g1)" and p: "update_pass res g1 = Inr (es1, g')"
    by (auto split: sum.splits)
  let ?n = "\<lambda>h. length (filter (\<lambda>(r, e). requests_lose r e h) res)"
  have g': "g' = (game_over_lose ^^ ?n g1) g1" by (rule Cons.IH [OF p])
  from Enemy_update_lose_or_same [OF u]
  have pl: "player_x g1 = player_x g" "player_y g1 = player_y g"
    by (auto simp: game_over_lose_def stop_def Let_def)
  have same: "?n g1 = ?n g"
    using requests_lose_frame [OF pl] by simp
  show ?case
  proof (cases "requests_lose r e g")
    case True
    with u Enemy_update_lose_or_same [OF u] have "g1 = game_over_lose g"
      by (auto simp: requests_lose_def)
    with g' same True show ?thesis by (simp add: a funpow_swap1)
  next
    case False
    with u have "g1 = g" by (simp add: requests_lose_def)
    with g' False show ?thesis by (simp add: a)
  qed
qed

text \<open>
  Claim C2, as amended. In a pass of updates that returns, every enemy whose update
  requests a loss has its request carried out: the session after the pass is the session
  before it with \<open>game_over_lose\<close> applied once for each such enemy. \<open>game_over_lose\<close>
  applied \<open>n\<close> times leaves the session not running (from the first call on) and has
  drawn \<open>n\<close> "You Lose" banners: a later request is not ignored, it stops the session again
  and draws one more banner.
\<close>

theorem every_lose_request_is_carried_out:
  "(update_pass res g = Inr (es, g') \<longrightarrow>
      g' = (game_over_lose ^^ length (filter (\<lambda>(r, e). requests_lose r e g) res)) g)
   \<and> (game_over_lose ^^ n) g =
       g\<lparr>is_started := (if n = 0 then is_started g else False),
         canvas_text := canvas_text g @ replicate n (''You Lose'', ''red'')\<rparr>"
  using update_pass_count [of res g es g'] game_over_lose_funpow [of n g] by blast

theorem every_lose_request_is_carried_out_witness:
  "\<exists>es g'. update_pass
       [(\<lparr>choice_x = ''+'', choice_y = ''+'', time_now = 0\<rparr>, FencingEnemy (fencing_start 1)),
        (\<lparr>choice_x = ''+'', choice_y = ''+'', time_now = 0\<rparr>, FencingEnemy (fencing_start 0))]
       ((session 800 500)\<lparr>player_x := 672, player_y := 215\<rparr>) = Inr (es, g')
     \<and> g' = game_over_lose ((session 800 500)\<lparr>player_x := 672, player_y := 215\<rparr>)"
proof -
  let ?r = "\<lparr>choice_x = ''+'', choice_y = ''+'', time_now = 0\<rparr>"
  let ?g = "(session 800 500)\<lparr>player_x := 672, player_y := 215\<rparr>"
  let ?res = "[(?r, FencingEnemy (fencing_start 1)), (?r, FencingEnemy (fencing_start 0))]"
  have m: "FencingEnemy_move (fencing_start 1)
             = \<lparr>x = 665, y = 210, enemy_size = 10, color = ''red'', speed = 5, spawnOpt = Some 1\<rparr>"
          "FencingEnemy_move (fencing_start 0)
             = \<lparr>x = 715, y = 270, enemy_size = 10, color = ''red'', speed = 5, spawnOpt = Some 0\<rparr>"
    by (simp_all add: FencingEnemy_move_def go_right_def go_down_def go_left_def go_up_def
          fencing_start_def new_fencing_def FencingEnemy_create_def)
  have q: "requests_lose ?r (FencingEnemy (fencing_start 1)) ?g"
          "\<not> requests_lose ?r (FencingEnemy (fencing_start 0)) ?g"
    by (simp_all add: requests_lose_def FencingEnemy_update_def Let_def m in_box_def session_def
          game_over_lose_neq)
  obtain es g' where u: "update_pass ?res ?g = Inr (es, g')"
    by (simp add: FencingEnemy_update_def Let_def m)
  have "g' = game_over_lose ?g"
    using every_lose_request_is_carried_out [of ?res ?g es g'] u q by simp
  with u show ?thesis by blast
qed

text \<open>
  The claim as stated fails: in one pass over a fencing enemy and a random-walk enemy
  that both reach the player at (672, 215), both requests are carried out and two
  banners are drawn.
\<close>

theorem two_collisions_two_banners:
  "map_sum id (canvas_text \<circ> snd)
     (update_pass
       [(\<lparr>choice_x = ''+'', choice_y = ''+'', time_now = 0\<rparr>,
           FencingEnemy \<lparr>x = 660, y = 210, enemy_size = 10, color = ''red'', speed = 5,
                         spawnOpt = Some 1\<rparr>),
        (\<lparr>choice_x = ''+'', choice_y = ''+'', time_now = 0\<rparr>,
           RandomWalkEnemy \<lparr>x = 670, y = 214, enemy_size = 20, color = ''blue'', op = []\<rparr>)]
       ((session 800 500)\<lparr>player_x := 672, player_y := 215\<rparr>))
   = Inr [(''You Lose'', ''red''), (''You Lose'', ''red'')]"
  by (simp add: session_def FencingEnemy_update_def FencingEnemy_move_def go_right_def
        go_down_def go_left_def go_up_def in_box_def RandomWalkEnemy_update_def hits_player_def
        game_over_lose_def stop_def Let_def)

subsection \<open>The fencing patrol\<close>

lemmas fencing_defs = fencing_start_def new_fencing_def FencingEnemy_create_def
  FencingEnemy_move_def go_right_def go_down_def go_left_def go_up_def position_def

lemma fencing_path_numeral:
  "fencing_path (numeral k) e = position e # fencing_path (pred_numeral k) (FencingEnemy_move e)"
  by (simp add: numeral_eq_Suc)

lemma funpow_numeral_left: "(f ^^ numeral k) a = (f ^^ pred_numeral k) (f a)"
  by (simp add: numeral_eq_Suc funpow_swap1)

lemma fencing_path_length: "length (fencing_path n e) = n"
  by (induction n arbitrary: e) simp_all

lemma fencing_path_nth:
  "k < n \<Longrightarrow> fencing_path n e ! k = position ((FencingEnemy_move ^^ k) e)"
proof (induction n arbitrary: e k)
  case 0
  then show ?case by simp
next
  case (Suc n)
  show ?case
  proof (cases k)
    case 0
    then show ?thesis by simp
  next
    case (Suc j)
    with Suc.prems have "j < n" by simp
    from Suc.IH [OF this] show ?thesis
      by (simp add: Suc funpow_swap1)
  qed
qed

text \<open>The 46 positions of each patrol, from its corner to its corner.\<close>

lemma path0: "fencing_path 46 (fencing_start 0) =
  [(720,270),(715,270),(710,270),(705,270),(700,270),(695,270),(690,270),(685,270),(680,270),
   (675,270),(670,270),(665,270),
   (660,265),(660,260),(660,255),(660,250),(660,245),(660,240),(660,235),(660,230),(660,225),
   (660,220),(660,215),
   (665,210),(670,210),(675,210),(680,210),(685,210),(690,210),(695,210),(700,210),(705,210),
   (710,210),(715,210),
   (720,215),(720,220),(720,225),(720,230),(720,235),(720,240),(720,245),(720,250),(720,255),
   (720,260),(720,265),(720,270)]"
  by (simp add: fencing_path_numeral fencing_defs)

lemma path1: "fencing_path 46 (fencing_start 1) =
  [(660,210),(665,210),(670,210),(675,210),(680,210),(685,210),(690,210),(695,210),(700,210),
   (705,210),(710,210),(715,210),
   (720,215),(720,220),(720,225),(720,230),(720,235),(720,240),(720,245),(720,250),(720,255),
   (720,260),(720,265),
   (715,270),(710,270),(705,270),(700,270),(695,270),(690,270),(685,270),(680,270),(675,270),
   (670,270),(665,270),
   (660,265),(660,260),(660,255),(660,250),(660,245),(660,240),(660,235),(660,230),(660,225),
   (660,220),(660,215),(660,210)]"
  by (simp add: fencing_path_numeral fencing_defs)

lemma path2: "fencing_path 46 (fencing_start 2) =
  [(720,210),(720,215),(720,220),(720,225),(720,230),(720,235),(720,240),(720,245),(720,250),
   (720,255),(720,260),(720,265),
   (715,270),(710,270),(705,270),(700,270),(695,270),(690,270),(685,270),(680,270),(675,270),
   (670,270),(665,270),
   (660,265),(660,260),(660,255),(660,250),(660,245),(660,240),(660,235),(660,230),(660,225),
   (660,220),(660,215),
   (665,210),(670,210),(675,210),(680,210),(685,210),(690,210),(695,210),(700,210),(705,210),
   (710,210),(715,210),(720,210)]"
  by (simp add: fencing_path_numeral fencing_defs)

lemma path3: "fencing_path 46 (fencing_start 3) =
  [(660,270),(660,265),(660,260),(660,255),(660,250),(660,245),(660,240),(660,235),(660,230),
   (660,225),(660,220),(660,215),
   (665,210),(670,210),(675,210),(680,210),(685,210),(690,210),(695,210),(700,210),(705,210),
   (710,210),(715,210),
   (720,215),(720,220),(720,225),(720,230),(720,235),(720,240),(720,245),(720,250),(720,255),
   (720,260),(720,265),
   (715,270),(710,270),(705,270),(700,270),(695,270),(690,270),(685,270),(680,270),(675,270),
   (670,270),(665,270),(660,270)]"
  by (simp add: fencing_path_numeral fencing_defs)

lemma loop0: "(FencingEnemy_move ^^ 45) (fencing_start 0) = fencing_start 0"
  by (simp add: funpow_numeral_left fencing_defs)

lemma loop1: "(FencingEnemy_move ^^ 45) (fencing_start 1) = fencing_start 1"
  by (simp add: funpow_numeral_left fencing_defs)

lemma loop2: "(FencingEnemy_move ^^ 45) (fencing_start 2) = fencing_start 2"
  by (simp add: funpow_numeral_left fencing_defs)

lemma loop3: "(FencingEnemy_move ^^ 45) (fencing_start 3) = fencing_start 3"
  by (simp add: funpow_numeral_left fencing_defs)

lemma funpow_period:
  assumes "(f ^^ p) a = a"
  shows "(f ^^ k) a = (f ^^ (k mod p)) a"
proof -
  have m: "(f ^^ (p * m)) a = a" for m
  proof (induction m)
    case 0
    then show ?case by simp
  next
    case (Suc m)
    have "(f ^^ (p * Suc m)) a = (f ^^ (p + p * m)) a" by simp
    also have "\<dots> = (f ^^ p) ((f ^^ (p * m)) a)" by (simp only: funpow_add o_apply)
    finally show ?case using Suc assms by simp
  qed
  have "(f ^^ k) a = (f ^^ (k mod p + p * (k div p))) a" by simp
  also have "\<dots> = (f ^^ (k mod p)) ((f ^^ (p * (k div p))) a)"
    by (simp only: funpow_add o_apply)
  finally show ?thesis by (simp add: m)
qed

lemma list_all_upt_numeral:
  "list_all P [0..<numeral k] \<longleftrightarrow> list_all P [0..<pred_numeral k] \<and> P (pred_numeral k)"
  by (simp add: numeral_eq_Suc)

text \<open>
  From one loop to every update: what holds along the 46 positions of a loop that closes
  holds for ever.
\<close>

lemma fencing_loop_facts:
  assumes loop: "(FencingEnemy_move ^^ 45) e = e"
      and dist: "distinct (take 45 (fencing_path 46 e))"
      and per: "list_all on_perimeter (fencing_path 46 e)"
      and steps: "list_all (\<lambda>k. fencing_step k (fencing_path 46 e ! k) (fencing_path 46 e ! Suc k))
                    [0..<45]"
  shows "(\<forall>k. 0 < k \<and> k < 45 \<longrightarrow> position ((FencingEnemy_move ^^ k) e) \<noteq> position e)
       \<and> (\<forall>k. on_perimeter (position ((FencingEnemy_move ^^ k) e)))
       \<and> (\<forall>k. fencing_step k (position ((FencingEnemy_move ^^ k) e))
                                (position ((FencingEnemy_move ^^ Suc k) e)))"
proof -
  let ?L = "fencing_path 46 e"
  have len: "length ?L = 46" by (rule fencing_path_length)
  have nth: "?L ! k = position ((FencingEnemy_move ^^ k) e)" if "k < 46" for k
    using fencing_path_nth [OF that, of e] by simp
  have a: "position ((FencingEnemy_move ^^ k) e) \<noteq> position e" if "0 < k" "k < 45" for k
  proof -
    have "take 45 ?L ! k \<noteq> take 45 ?L ! 0"
      using dist that len by (simp add: distinct_conv_nth)
    then show ?thesis using that nth [of k] nth [of 0] by simp
  qed
  have b: "on_perimeter (position ((FencingEnemy_move ^^ k) e))" for k
  proof -
    have j: "k mod 45 < 46" by (simp add: less_trans [OF mod_less_divisor])
    then have "on_perimeter (?L ! (k mod 45))"
      using per len by (simp add: list_all_length)
    then show ?thesis
      using nth [OF j] funpow_period [OF loop, of k] by simp
  qed
  have c: "fencing_step k (position ((FencingEnemy_move ^^ k) e))
             (position ((FencingEnemy_move ^^ Suc k) e))" for k
  proof -
    let ?j = "k mod 45"
    have j: "?j < 45" by simp
    then have "fencing_step ?j (?L ! ?j) (?L ! Suc ?j)"
      using steps by (simp add: list_all_length)
    moreover have "?L ! ?j = position ((FencingEnemy_move ^^ k) e)"
      using nth [of ?j] j funpow_period [OF loop, of k] by simp
    moreover have "?L ! Suc ?j = position ((FencingEnemy_move ^^ Suc k) e)"
      using nth [of "Suc ?j"] j funpow_period [OF loop, of k] by simp
    ultimately show ?thesis by (simp add: fencing_step_def)
  qed
  from a b c show ?thesis by blast
qed

lemmas step_defs = fencing_step_def turning_def corner_step_def axis_step_def

lemma patrol0:
  "(\<forall>k. 0 < k \<and> k < 45 \<longrightarrow>
        position ((FencingEnemy_move ^^ k) (fencing_start 0)) \<noteq> position (fencing_start 0))
   \<and> (\<forall>k. on_perimeter (position ((FencingEnemy_move ^^ k) (fencing_start 0))))
   \<and> (\<forall>k. fencing_step k (position ((FencingEnemy_move ^^ k) (fencing_start 0)))
                            (position ((FencingEnemy_move ^^ Suc k) (fencing_start 0))))"
  by (rule fencing_loop_facts [OF loop0])
     (simp_all add: path0 on_perimeter_def list_all_upt_numeral step_defs)

lemma patrol1:
  "(\<forall>k. 0 < k \<and> k < 45 \<longrightarrow>
        position ((FencingEnemy_move ^^ k) (fencing_start 1)) \<noteq> position (fencing_start 1))
   \<and> (\<forall>k. on_perimeter (position ((FencingEnemy_move ^^ k) (fencing_start 1))))
   \<and> (\<forall>k. fencing_step k (position ((FencingEnemy_move ^^ k) (fencing_start 1)))
                            (position ((FencingEnemy_move ^^ Suc k) (fencing_start 1))))"
  by (rule fencing_loop_facts [OF loop1])
     (simp_all add: path1 on_perimeter_def list_all_upt_numeral step_defs)

lemma patrol2:
  "(\<forall>k. 0 < k \<and> k < 45 \<longrightarrow>
        position ((FencingEnemy_move ^^ k) (fencing_start 2)) \<noteq> position (fencing_start 2))
   \<and> (\<forall>k. on_perimeter (position ((FencingEnemy_move ^^ k) (fencing_start 2))))
   \<and> (\<forall>k. fencing_step k (position ((FencingEnemy_move ^^ k) (fencing_start 2)))
                            (position ((FencingEnemy_move ^^ Suc k) (fencing_start 2))))"
  by (rule fencing_loop_facts [OF loop2])
     (simp_all add: path2 on_perimeter_def list_all_upt_numeral step_defs)

lemma patrol3:
  "(\<forall>k. 0 < k \<and> k < 45 \<longrightarrow>
        position ((FencingEnemy_move ^^ k) (fencing_start 3)) \<noteq> position (fencing_start 3))
   \<and> (\<forall>k. on_perimeter (position ((FencingEnemy_move ^^ k) (fencing_start 3))))
   \<and> (\<forall>k. fencing_step k (position ((FencingEnemy_move ^^ k) (fencing_start 3)))
                            (position ((FencingEnemy_move ^^ Suc k) (fencing_start 3))))"
  by (rule fencing_loop_facts [OF loop3])
     (simp_all add: path3 on_perimeter_def list_all_upt_numeral step_defs)

lemma fencing_start_position:
  "position (fencing_start i) =
     (if i = 0 then (720, 270) else if i = 1 then (660, 210)
      else if i = 2 then (720, 210) else if i = 3 then (660, 270) else (0, 0))"
  by (simp add: fencing_defs)

text \<open>
  Claim C6, as amended. For each \<open>spawnOpt\<close> \<open>i\<close> of 0, 1, 2, 3 the fencing enemy starts on
  its corner, (720, 270), (660, 210), (720, 210), (660, 270) in this order. The position
  part of an update is \<open>FencingEnemy_move\<close>. After 45 updates the enemy is as it started,
  and after fewer it is not on its start corner. It is always on the perimeter of the
  rectangle, and goes round it in the same sense for every \<open>spawnOpt\<close>: (660, 210), (720,
  210), (720, 270), (660, 270). An update moves it by 5 along its edge, except the updates
  12, 23 and 34 of each loop: these bring it to the next corner and, the rule of the next
  edge firing in the same update, 5 along the next edge too, so that it never rests on a
  corner other than its start corner.
\<close>

theorem fencing_patrol_loop:
  assumes "i \<in> {0, 1, 2, 3}"
  shows "position (fencing_start i) =
           (if i = 0 then (720, 270) else if i = 1 then (660, 210)
            else if i = 2 then (720, 210) else (660, 270))
       \<and> fst (FencingEnemy_update e g) = FencingEnemy_move e
       \<and> (FencingEnemy_move ^^ 45) (fencing_start i) = fencing_start i
       \<and> (\<forall>k. 0 < k \<and> k < 45 \<longrightarrow>
             position ((FencingEnemy_move ^^ k) (fencing_start i)) \<noteq> position (fencing_start i))
       \<and> (\<forall>k. on_perimeter (position ((FencingEnemy_move ^^ k) (fencing_start i))))
       \<and> (\<forall>k. fencing_step k (position ((FencingEnemy_move ^^ k) (fencing_start i)))
                                (position ((FencingEnemy_move ^^ Suc k) (fencing_start i))))"
proof -
  have u: "fst (FencingEnemy_update e g) = FencingEnemy_move e"
    by (simp add: FencingEnemy_update_def Let_def)
  from assms consider "i = 0" | "i = 1" | "i = 2" | "i = 3" by auto
  then show ?thesis
  proof cases
    case 1
    with u loop0 patrol0 fencing_start_position [of 0] show ?thesis by simp
  next
    case 2
    with u loop1 patrol1 fencing_start_position [of 1] show ?thesis by simp
  next
    case 3
    with u loop2 patrol2 fencing_start_position [of 2] show ?thesis by simp
  next
    case 4
    with u loop3 patrol3 fencing_start_position [of 3] show ?thesis by simp
  qed
qed

theorem fencing_patrol_loop_witness:
  "(FencingEnemy_move ^^ 45) (fencing_start 2) = fencing_start 2
   \<and> position ((FencingEnemy_move ^^ 7) (fencing_start 2)) \<noteq> position (fencing_start 2)
   \<and> on_perimeter (position ((FencingEnemy_move ^^ 100) (fencing_start 2)))
   \<and> corner_step (position ((FencingEnemy_move ^^ 56) (fencing_start 2)))
                   (position ((FencingEnemy_move ^^ Suc 56) (fencing_start 2)))"
proof -
  have i: "(2::int) \<in> {0, 1, 2, 3}" by simp
  note t = fencing_patrol_loop [OF i]
  from t have 1: "(FencingEnemy_move ^^ 45) (fencing_start 2) = fencing_start 2" by blast
  from t have "0 < (7::nat) \<and> (7::nat) < 45 \<longrightarrow>
      position ((FencingEnemy_move ^^ 7) (fencing_start 2)) \<noteq> position (fencing_start 2)"
    by blast
  then have 2: "position ((FencingEnemy_move ^^ 7) (fencing_start 2)) \<noteq> position (fencing_start 2)"
    by simp
  from t have 3: "on_perimeter (position ((FencingEnemy_move ^^ 100) (fencing_start 2)))"
    by blast
  from t have "fencing_step 56 (position ((FencingEnemy_move ^^ 56) (fencing_start 2)))
                   (position ((FencingEnemy_move ^^ Suc 56) (fencing_start 2)))"
    by blast
  then have 4: "corner_step (position ((FencingEnemy_move ^^ 56) (fencing_start 2)))
                   (position ((FencingEnemy_move ^^ Suc 56) (fencing_start 2)))"
    by (simp add: fencing_step_def)
  from 1 2 3 4 show ?thesis by blast
qed

text \<open>
  The claim as stated, a move along one edge at speed 5 up to the next corner and only
  then along the next edge, fails: the twelfth update of the enemy with \<open>spawnOpt = 1\<close>
  takes it from (715, 210) to (720, 215), past the corner (720, 210), by 5 along both
  axes.
\<close>

theorem fencing_corner_is_cut:
  "position ((FencingEnemy_move ^^ 11) (fencing_start 1)) = (715, 210)
   \<and> position ((FencingEnemy_move ^^ 12) (fencing_start 1)) = (720, 215)
   \<and> \<not> axis_step (715, 210) (720, 215)"
  by (simp add: funpow_numeral_left fencing_defs axis_step_def)

subsection \<open>The shooting enemy\<close>












subsection \<open>The centipede's body\<close>








end
